theory Spec2Isabelle
  imports Main
begin

section \<open>The preprocessor state a header is processed in\<close>

text \<open>
  \<^verbatim>\<open>Sources/CZLib/include/shim.h\<close> consists of preprocessor directives only. Processing
  it transforms the state of the translation unit that includes it:

  \<^item> \<open>macros\<close>: the macro table, a macro name mapped to its replacement text (the empty string
    for \<^verbatim>\<open>#define NAME\<close>). The platform is part of it: a Unix-like target is one whose
    compiler predefines \<^verbatim>\<open>__unix__\<close>, which is what line 4 of the header tests.
  \<^item> \<open>decls\<close>: the declarations (types, functions, constants) visible so far. Only the
    contents of a header can add to them; their representation is left open (\<open>'d\<close>).
  \<^item> \<open>trace\<close>: what has happened so far, in order: each macro definition that took effect
    and each header that was entered.

  The two headers the shim imports, \<^verbatim>\<open>stdio.h\<close> and \<^verbatim>\<open>zlib.h\<close>, belong to the C
  library and to the external compression library. Their effect is a parameter
  \<open>ext\<close> of the model: \<open>ext h (m, d)\<close> is the macro table and the declarations after the
  contents of header \<open>h\<close> were processed under macro table \<open>m\<close> and declarations \<open>d\<close>.
\<close>

type_synonym macro_table = "string \<rightharpoonup> string"

datatype event = Defined string string | Included string

datatype error = Redefined string

record 'd tu =
  macros :: macro_table
  decls :: 'd
  trace :: "event list"

type_synonym 'd headers = "string \<Rightarrow> macro_table \<times> 'd \<Rightarrow> macro_table \<times> 'd"

type_synonym 'd directive = "'d tu \<Rightarrow> error + 'd tu"

section \<open>The directives the header uses\<close>

text \<open>A group of lines is processed in order; the first error ends the processing.\<close>

fun block :: "'d directive list \<Rightarrow> 'd directive" where
  "block [] s = Inr s"
| "block (d # ds) s = (case d s of Inl e \<Rightarrow> Inl e | Inr s' \<Rightarrow> block ds s')"

definition defined :: "string \<Rightarrow> 'd tu \<Rightarrow> bool" where
  "defined n s = (macros s n \<noteq> None)"

text \<open>\<^verbatim>\<open>#ifndef n\<close> ... \<^verbatim>\<open>#endif\<close> and \<^verbatim>\<open>#ifdef n\<close> ... \<^verbatim>\<open>#endif\<close>: the group is
  processed or skipped as a whole.\<close>

definition ifndef :: "string \<Rightarrow> 'd directive list \<Rightarrow> 'd directive" where
  "ifndef n ds s = (if defined n s then Inr s else block ds s)"

definition ifdef :: "string \<Rightarrow> 'd directive list \<Rightarrow> 'd directive" where
  "ifdef n ds s = (if defined n s then block ds s else Inr s)"

text \<open>\<^verbatim>\<open>#define n v\<close>. Defining a macro that is already defined is accepted only when the
  replacement text is the same; otherwise the preprocessor reports the redefinition.\<close>

definition add_macro :: "string \<Rightarrow> string \<Rightarrow> 'd tu \<Rightarrow> 'd tu" where
  "add_macro n v s = s\<lparr>macros := (macros s)(n \<mapsto> v), trace := trace s @ [Defined n v]\<rparr>"

definition define_macro :: "string \<Rightarrow> string \<Rightarrow> 'd directive" where
  "define_macro n v s =
     (case macros s n of
        None \<Rightarrow> Inr (add_macro n v s)
      | Some w \<Rightarrow> if w = v then Inr s else Inl (Redefined n))"

text \<open>\<^verbatim>\<open>#import <h>\<close>: the contents of the header are processed unless this translation unit
  has entered the header before (that is the difference to \<^verbatim>\<open>#include\<close>).\<close>

definition enter :: "'d headers \<Rightarrow> string \<Rightarrow> 'd tu \<Rightarrow> 'd tu" where
  "enter ext h s =
     s\<lparr>macros := fst (ext h (macros s, decls s)),
       decls := snd (ext h (macros s, decls s)),
       trace := trace s @ [Included h]\<rparr>"

definition import_once :: "'d headers \<Rightarrow> string \<Rightarrow> 'd directive" where
  "import_once ext h s = (if Included h \<in> set (trace s) then Inr s else Inr (enter ext h s))"

section \<open>shim.h\<close>

definition zlib_shim_h :: string where "zlib_shim_h = ''zlib_shim_h''"
definition unix :: string where "unix = ''__unix__''"
definition LARGEFILE64_SOURCE :: string where "LARGEFILE64_SOURCE = ''_LARGEFILE64_SOURCE''"
definition FILE_OFFSET_BITS :: string where "FILE_OFFSET_BITS = ''_FILE_OFFSET_BITS''"
definition LFS64_LARGEFILE :: string where "LFS64_LARGEFILE = ''_LFS64_LARGEFILE''"

text \<open>Lines 9 to 20: the three large-file feature macros, each defined only when it is not
  defined yet.\<close>

definition large_file_defaults :: "'d directive" where
  "large_file_defaults =
     block
       [ifndef LARGEFILE64_SOURCE [define_macro LARGEFILE64_SOURCE ''1''],
        ifndef FILE_OFFSET_BITS [define_macro FILE_OFFSET_BITS ''64''],
        ifndef LFS64_LARGEFILE [define_macro LFS64_LARGEFILE ''1'']]"

text \<open>Lines 4 to 22: the part for Unix-like targets. The two imports of lines 6 and 7 come
  first, the feature macros after them.\<close>

definition unix_section :: "'d headers \<Rightarrow> 'd directive" where
  "unix_section ext =
     ifdef unix
       [import_once ext ''stdio.h'',
        import_once ext ''zlib.h'',
        large_file_defaults]"

text \<open>The whole file: the include guard of lines 1, 2 and 24 around the Unix section.\<close>

definition shim :: "'d headers \<Rightarrow> 'd directive" where
  "shim ext = ifndef zlib_shim_h [define_macro zlib_shim_h '''', unix_section ext]"

section \<open>Vocabulary of the properties\<close>

text \<open>The three feature macros, and the defaults the specification lists for them.\<close>

definition feature_flags :: "string set" where
  "feature_flags = {LARGEFILE64_SOURCE, FILE_OFFSET_BITS, LFS64_LARGEFILE}"

definition documented_default :: "string \<Rightarrow> string option" where
  "documented_default f =
     (if f = LARGEFILE64_SOURCE then Some ''1''
      else if f = FILE_OFFSET_BITS then Some ''64''
      else if f = LFS64_LARGEFILE then Some ''1''
      else None)"

text \<open>A header set that leaves macro \<open>n\<close> as it finds it, defined or not.\<close>

definition keeps :: "'d headers \<Rightarrow> string \<Rightarrow> bool" where
  "keeps ext n = (\<forall>h m d. fst (ext h (m, d)) n = m n)"

text \<open>The headers a translation unit has entered, in order.\<close>

definition included :: "'d tu \<Rightarrow> string list" where
  "included s = [h. Included h \<leftarrow> trace s]"

text \<open>Concrete inputs: headers that define and declare nothing; headers that only record,
  as their declaration, the values of the three feature macros they were processed under;
  a translation unit that starts on a Unix-like target and one that starts elsewhere, each
  with nothing else defined.\<close>

definition no_headers :: "'d headers" where
  "no_headers h x = x"

definition probe :: "(string \<times> string option list) list headers" where
  "probe h x =
     (fst x,
      snd x @ [(h, [fst x LARGEFILE64_SOURCE, fst x FILE_OFFSET_BITS, fst x LFS64_LARGEFILE])])"

definition fresh_unix :: "'d \<Rightarrow> 'd tu" where
  "fresh_unix d = \<lparr>macros = [unix \<mapsto> ''1''], decls = d, trace = []\<rparr>"

definition fresh_other :: "'d \<Rightarrow> 'd tu" where
  "fresh_other d = \<lparr>macros = Map.empty, decls = d, trace = []\<rparr>"

section \<open>The result of the header in closed form\<close>

text \<open>The conditional definitions and the imports never report an error, so each has a total
  counterpart on states; \<open>shim_result\<close> composes them the way the file nests them. The lemmas
  below show that the directives compute exactly these.\<close>

definition set_default :: "string \<Rightarrow> string \<Rightarrow> 'd tu \<Rightarrow> 'd tu" where
  "set_default n v s = (if defined n s then s else add_macro n v s)"

definition once :: "'d headers \<Rightarrow> string \<Rightarrow> 'd tu \<Rightarrow> 'd tu" where
  "once ext h s = (if Included h \<in> set (trace s) then s else enter ext h s)"

definition defaults :: "'d tu \<Rightarrow> 'd tu" where
  "defaults s =
     set_default LFS64_LARGEFILE ''1''
       (set_default FILE_OFFSET_BITS ''64'' (set_default LARGEFILE64_SOURCE ''1'' s))"

definition shim_result :: "'d headers \<Rightarrow> 'd tu \<Rightarrow> 'd tu" where
  "shim_result ext s =
     (if defined zlib_shim_h s then s
      else if defined unix s
        then defaults (once ext ''zlib.h'' (once ext ''stdio.h'' (add_macro zlib_shim_h '''' s)))
        else add_macro zlib_shim_h '''' s)"

lemmas name_defs =
  zlib_shim_h_def unix_def LARGEFILE64_SOURCE_def FILE_OFFSET_BITS_def LFS64_LARGEFILE_def

lemma names_distinct [simp]:
  "zlib_shim_h \<noteq> unix" "unix \<noteq> zlib_shim_h"
  "zlib_shim_h \<noteq> LARGEFILE64_SOURCE" "LARGEFILE64_SOURCE \<noteq> zlib_shim_h"
  "zlib_shim_h \<noteq> FILE_OFFSET_BITS" "FILE_OFFSET_BITS \<noteq> zlib_shim_h"
  "zlib_shim_h \<noteq> LFS64_LARGEFILE" "LFS64_LARGEFILE \<noteq> zlib_shim_h"
  "LARGEFILE64_SOURCE \<noteq> FILE_OFFSET_BITS" "FILE_OFFSET_BITS \<noteq> LARGEFILE64_SOURCE"
  "LARGEFILE64_SOURCE \<noteq> LFS64_LARGEFILE" "LFS64_LARGEFILE \<noteq> LARGEFILE64_SOURCE"
  "FILE_OFFSET_BITS \<noteq> LFS64_LARGEFILE" "LFS64_LARGEFILE \<noteq> FILE_OFFSET_BITS"
  "unix \<noteq> LARGEFILE64_SOURCE" "LARGEFILE64_SOURCE \<noteq> unix"
  "unix \<noteq> FILE_OFFSET_BITS" "FILE_OFFSET_BITS \<noteq> unix"
  "unix \<noteq> LFS64_LARGEFILE" "LFS64_LARGEFILE \<noteq> unix"
  by (simp_all add: name_defs)

lemma ifndef_define: "ifndef n [define_macro n v] s = Inr (set_default n v s)"
  by (simp add: ifndef_def define_macro_def set_default_def defined_def)

lemma large_file_defaults_eq: "large_file_defaults s = Inr (defaults s)"
  by (simp add: large_file_defaults_def defaults_def ifndef_define)

lemma import_once_eq: "import_once ext h s = Inr (once ext h s)"
  by (simp add: import_once_def once_def)

lemma unix_section_eq:
  "unix_section ext s =
     Inr (if defined unix s then defaults (once ext ''zlib.h'' (once ext ''stdio.h'' s)) else s)"
  by (simp add: unix_section_def ifdef_def import_once_eq large_file_defaults_eq)

lemma defined_add_macro [simp]: "defined m (add_macro n v s) = (m = n \<or> defined m s)"
  by (simp add: defined_def add_macro_def)

lemma define_fresh: "\<not> defined n s \<Longrightarrow> define_macro n v s = Inr (add_macro n v s)"
  by (simp add: define_macro_def defined_def)

lemma shim_eq: "shim ext s = Inr (shim_result ext s)"
proof (cases "defined zlib_shim_h s")
  case True
  then show ?thesis by (simp add: shim_def shim_result_def ifndef_def)
next
  case False
  then show ?thesis
    by (simp add: shim_def shim_result_def ifndef_def define_fresh unix_section_eq)
qed

section \<open>What the total counterparts do to a state\<close>

lemma macros_add_macro [simp]: "macros (add_macro n v s) = (macros s)(n \<mapsto> v)"
  by (simp add: add_macro_def)

lemma decls_add_macro [simp]: "decls (add_macro n v s) = decls s"
  by (simp add: add_macro_def)

lemma trace_add_macro [simp]: "trace (add_macro n v s) = trace s @ [Defined n v]"
  by (simp add: add_macro_def)

lemma macros_set_default:
  "macros (set_default n v s) m = (if m = n \<and> macros s n = None then Some v else macros s m)"
  by (simp add: set_default_def defined_def)

lemma decls_set_default [simp]: "decls (set_default n v s) = decls s"
  by (simp add: set_default_def)

lemma trace_set_default:
  "trace (set_default n v s) = trace s @ (if defined n s then [] else [Defined n v])"
  by (simp add: set_default_def)

lemma macros_defaults:
  "macros (defaults s) m =
     (case macros s m of Some v \<Rightarrow> Some v | None \<Rightarrow> documented_default m)"
  by (simp add: defaults_def macros_set_default documented_default_def split: option.split)

lemma decls_defaults [simp]: "decls (defaults s) = decls s"
  by (simp add: defaults_def)

lemma trace_defaults:
  "trace (defaults s) =
     trace s @ [Defined f v. (f, v) \<leftarrow> [(LARGEFILE64_SOURCE, ''1''), (FILE_OFFSET_BITS, ''64''),
                                         (LFS64_LARGEFILE, ''1'')], \<not> defined f s]"
  by (simp add: defaults_def trace_set_default defined_def macros_set_default)

lemma Included_defaults [simp]:
  "Included h \<in> set (trace (defaults s)) \<longleftrightarrow> Included h \<in> set (trace s)"
  by (auto simp add: trace_defaults)

lemma included_defaults [simp]: "included (defaults s) = included s"
  by (simp add: included_def trace_defaults)

lemma defaults_fixed:
  "defined LARGEFILE64_SOURCE s \<Longrightarrow> defined FILE_OFFSET_BITS s \<Longrightarrow> defined LFS64_LARGEFILE s
     \<Longrightarrow> defaults s = s"
  by (simp add: defaults_def set_default_def)

lemma defined_defaults:
  "defined m (defaults s) \<longleftrightarrow> m \<in> feature_flags \<or> defined m s"
  by (auto simp add: defined_def macros_defaults documented_default_def feature_flags_def
      split: option.splits if_splits)

lemma defaults_idem: "defaults (defaults s) = defaults s"
  by (rule defaults_fixed) (simp_all add: defined_defaults feature_flags_def)

lemma Included_once [simp]: "Included h \<in> set (trace (once ext h s))"
  by (simp add: once_def enter_def)

lemma Included_once_mono:
  "Included k \<in> set (trace s) \<Longrightarrow> Included k \<in> set (trace (once ext h s))"
  by (simp add: once_def enter_def)

lemma once_fixed: "Included h \<in> set (trace s) \<Longrightarrow> once ext h s = s"
  by (simp add: once_def)

lemma macros_once_keeps: "keeps ext n \<Longrightarrow> macros (once ext h s) n = macros s n"
  by (simp add: once_def enter_def keeps_def)

lemma flag_cases:
  "f \<in> feature_flags \<longleftrightarrow> f = LARGEFILE64_SOURCE \<or> f = FILE_OFFSET_BITS \<or> f = LFS64_LARGEFILE"
  by (auto simp add: feature_flags_def)

lemma flag_not_guard: "f \<in> feature_flags \<Longrightarrow> f \<noteq> zlib_shim_h"
  by (auto simp add: flag_cases)

lemma macros_shim_result_kept:
  assumes "keeps ext f" and "macros s f = Some v"
  shows "macros (shim_result ext s) f = Some v"
proof -
  have "f \<noteq> zlib_shim_h \<or> defined zlib_shim_h s"
    using assms(2) by (auto simp add: defined_def)
  then show ?thesis
    using assms by (auto simp add: shim_result_def macros_defaults macros_once_keeps)
qed

lemma included_add_macro [simp]: "included (add_macro n v s) = included s"
  by (simp add: included_def)

lemma shim_result_twice:
  "f \<in> feature_flags \<Longrightarrow>
     macros (shim_result ext (shim_result ext s)) f = macros (shim_result ext s) f"
proof (cases "defined zlib_shim_h s")
  case True
  then show ?thesis by (simp add: shim_result_def)
next
  case fresh: False
  assume f: "f \<in> feature_flags"
  show ?thesis
  proof (cases "defined unix s")
    case False
    with fresh show ?thesis by (simp add: shim_result_def)
  next
    case True
    define t where "t = shim_result ext s"
    have t: "t = defaults (once ext ''zlib.h'' (once ext ''stdio.h'' (add_macro zlib_shim_h [] s)))"
      using fresh True by (simp add: t_def shim_result_def)
    have inc: "Included ''stdio.h'' \<in> set (trace t)" "Included ''zlib.h'' \<in> set (trace t)"
      by (simp_all add: t Included_once_mono)
    have flags: "defined LARGEFILE64_SOURCE t" "defined FILE_OFFSET_BITS t"
      "defined LFS64_LARGEFILE t"
      by (simp_all add: t defined_defaults feature_flags_def)
    let ?u = "add_macro zlib_shim_h [] t"
    have inc': "Included ''stdio.h'' \<in> set (trace ?u)" "Included ''zlib.h'' \<in> set (trace ?u)"
      using inc by simp_all
    have "defaults (once ext ''zlib.h'' (once ext ''stdio.h'' ?u)) = ?u"
      using inc' flags by (simp add: once_fixed defaults_fixed)
    then have "macros (shim_result ext t) f = macros t f"
      using f by (auto simp add: shim_result_def dest: flag_not_guard)
    then show ?thesis by (simp add: t_def)
  qed
qed

lemma shim_result_skipped: "defined zlib_shim_h s \<Longrightarrow> shim_result ext s = s"
  by (simp add: shim_result_def)

lemma defined_once_keeps: "keeps ext n \<Longrightarrow> defined n (once ext h s) = defined n s"
  by (simp add: defined_def macros_once_keeps)

lemma guard_after_shim:
  "keeps ext zlib_shim_h \<or> \<not> defined unix s \<Longrightarrow> defined zlib_shim_h (shim_result ext s)"
  by (auto simp add: shim_result_def defined_defaults defined_once_keeps)

lemma trace_once:
  "trace (once ext h s) = trace s @ (if Included h \<in> set (trace s) then [] else [Included h])"
  by (simp add: once_def enter_def)

lemma imports_eq:
  "block [import_once ext ''stdio.h'', import_once ext ''zlib.h''] s =
     Inr (once ext ''zlib.h'' (once ext ''stdio.h'' s))"
  by (simp add: import_once_eq)

lemma trace_shim_result:
  "trace (shim_result ext s) =
     trace s @
       (if defined zlib_shim_h s then []
        else Defined zlib_shim_h [] #
          (if defined unix s
           then (let s1 = add_macro zlib_shim_h [] s;
                     s2 = once ext ''stdio.h'' s1;
                     s3 = once ext ''zlib.h'' s2
                 in (if Included ''stdio.h'' \<in> set (trace s1) then [] else [Included ''stdio.h'']) @
                    (if Included ''zlib.h'' \<in> set (trace s2) then [] else [Included ''zlib.h'']) @
                    [Defined f v. (f, v) \<leftarrow> [(LARGEFILE64_SOURCE, ''1''), (FILE_OFFSET_BITS, ''64''),
                                         (LFS64_LARGEFILE, ''1'')], \<not> defined f s3])
           else []))"
  by (simp add: shim_result_def trace_defaults trace_once Let_def)

section \<open>Properties of the header\<close>

text \<open>C1: the feature macros are to be set before the headers of the compression library
  are processed, so that the library is configured by them. The header does the opposite:
  lines 6 and 7 import \<^verbatim>\<open>stdio.h\<close> and \<^verbatim>\<open>zlib.h\<close>, and only lines 10 to 20 define the
  macros. On a Unix-like platform, from a translation unit with nothing else defined, both
  headers are processed while all three macros are still undefined (each header records here
  the three values it was processed under), and the three definitions follow them in the
  trace.\<close>

theorem headers_before_flags_C1:
  "shim probe (fresh_unix []) =
     Inr \<lparr>macros = [unix \<mapsto> ''1'', zlib_shim_h \<mapsto> [], LARGEFILE64_SOURCE \<mapsto> ''1'',
                    FILE_OFFSET_BITS \<mapsto> ''64'', LFS64_LARGEFILE \<mapsto> ''1''],
          decls = [(''stdio.h'', [None, None, None]), (''zlib.h'', [None, None, None])],
          trace = [Defined zlib_shim_h [], Included ''stdio.h'', Included ''zlib.h'',
                   Defined LARGEFILE64_SOURCE ''1'', Defined FILE_OFFSET_BITS ''64'',
                   Defined LFS64_LARGEFILE ''1'']\<rparr>"
  by (simp add: shim_eq shim_result_def fresh_unix_def defined_def defaults_def set_default_def
      once_def enter_def add_macro_def probe_def)

text \<open>C2: a feature macro that is already defined keeps its value. For each of the three
  macros, if it is defined as \<open>v\<close> when the three conditional definitions (lines 10 to 20)
  are reached, it is still \<open>v\<close> after them; and if it is defined as \<open>v\<close> before the
  whole file is processed and the imported headers leave it alone, it is still \<open>v\<close>
  afterwards (on every platform, so in particular on a Unix-like one). In particular, on a
  Unix-like platform where the file is processed for the first time with \<^verbatim>\<open>_FILE_OFFSET_BITS\<close>
  defined as 32 and the other two undefined, \<^verbatim>\<open>_FILE_OFFSET_BITS\<close> remains 32 and the
  other two receive their defaults 1 and 1.\<close>

theorem predefined_flag_kept_C2:
  "(f \<in> feature_flags \<and> macros s f = Some v \<longrightarrow>
      (\<exists>s'. large_file_defaults s = Inr s' \<and> macros s' f = Some v) \<and>
      (keeps ext f \<longrightarrow> (\<exists>s'. shim ext s = Inr s' \<and> macros s' f = Some v))) \<and>
   (defined unix s \<and> \<not> defined zlib_shim_h s \<and>
    keeps ext LARGEFILE64_SOURCE \<and> keeps ext FILE_OFFSET_BITS \<and> keeps ext LFS64_LARGEFILE \<and>
    macros s FILE_OFFSET_BITS = Some ''32'' \<and>
    macros s LARGEFILE64_SOURCE = None \<and> macros s LFS64_LARGEFILE = None \<longrightarrow>
      (\<exists>s'. shim ext s = Inr s' \<and>
            macros s' FILE_OFFSET_BITS = Some ''32'' \<and>
            macros s' LARGEFILE64_SOURCE = Some ''1'' \<and>
            macros s' LFS64_LARGEFILE = Some ''1''))"
proof -
  have kept: "\<exists>s'. large_file_defaults s = Inr s' \<and> macros s' f = Some v"
    if "macros s f = Some v"
    using that by (simp add: large_file_defaults_eq macros_defaults)
  have whole: "\<exists>s'. shim ext s = Inr s' \<and> macros s' f = Some v"
    if "macros s f = Some v" and "keeps ext f"
    using that by (simp add: shim_eq macros_shim_result_kept)
  have scenario: "\<exists>s'. shim ext s = Inr s' \<and>
            macros s' FILE_OFFSET_BITS = Some ''32'' \<and>
            macros s' LARGEFILE64_SOURCE = Some ''1'' \<and>
            macros s' LFS64_LARGEFILE = Some ''1''"
    if "defined unix s" and "\<not> defined zlib_shim_h s"
      and "keeps ext LARGEFILE64_SOURCE" and "keeps ext FILE_OFFSET_BITS"
      and "keeps ext LFS64_LARGEFILE" and "macros s FILE_OFFSET_BITS = Some ''32''"
      and "macros s LARGEFILE64_SOURCE = None" and "macros s LFS64_LARGEFILE = None"
    using that
    by (simp add: shim_eq shim_result_def macros_defaults macros_once_keeps
        documented_default_def)
  show ?thesis using kept whole scenario by blast
qed

theorem predefined_flag_kept_C2_witness:
  "FILE_OFFSET_BITS \<in> feature_flags \<and>
   defined unix \<lparr>macros = [unix \<mapsto> ''1'', FILE_OFFSET_BITS \<mapsto> ''32''], decls = (), trace = []\<rparr> \<and>
   keeps (no_headers :: unit headers) FILE_OFFSET_BITS \<and>
   (\<exists>s'. large_file_defaults
            \<lparr>macros = [unix \<mapsto> ''1'', FILE_OFFSET_BITS \<mapsto> ''32''], decls = (), trace = []\<rparr> = Inr s' \<and>
         macros s' FILE_OFFSET_BITS = Some ''32'') \<and>
   (\<exists>s'. shim no_headers
            \<lparr>macros = [unix \<mapsto> ''1'', FILE_OFFSET_BITS \<mapsto> ''32''], decls = (), trace = []\<rparr> = Inr s' \<and>
         macros s' FILE_OFFSET_BITS = Some ''32'' \<and>
         macros s' LARGEFILE64_SOURCE = Some ''1'' \<and>
         macros s' LFS64_LARGEFILE = Some ''1'')"
  using predefined_flag_kept_C2
    [where f = FILE_OFFSET_BITS and v = "''32''" and ext = "no_headers :: unit headers"
       and s = "\<lparr>macros = [unix \<mapsto> ''1'', FILE_OFFSET_BITS \<mapsto> ''32''], decls = (), trace = []\<rparr>"]
  by (simp add: feature_flags_def defined_def keeps_def no_headers_def)

text \<open>C3: a feature macro that is undefined receives its documented default. For each of
  the three macros, if it is undefined when the three conditional definitions are reached,
  they define it as 64 (\<^verbatim>\<open>_FILE_OFFSET_BITS\<close>) or 1 (\<^verbatim>\<open>_LARGEFILE64_SOURCE\<close>,
  \<^verbatim>\<open>_LFS64_LARGEFILE\<close>); and if it is undefined before the whole file is processed for
  the first time on a Unix-like platform and the imported headers leave it alone, it has
  that default afterwards.\<close>

theorem undefined_flag_defaulted_C3:
  "f \<in> feature_flags \<and> macros s f = None \<longrightarrow>
     (\<exists>s'. large_file_defaults s = Inr s' \<and>
           macros s' f = Some (if f = FILE_OFFSET_BITS then ''64'' else ''1'')) \<and>
     (defined unix s \<and> \<not> defined zlib_shim_h s \<and> keeps ext f \<longrightarrow>
        (\<exists>s'. shim ext s = Inr s' \<and>
              macros s' f = Some (if f = FILE_OFFSET_BITS then ''64'' else ''1'')))"
  by (auto simp add: shim_eq large_file_defaults_eq macros_defaults shim_result_def
      macros_once_keeps documented_default_def flag_cases)

theorem undefined_flag_defaulted_C3_witness:
  "LARGEFILE64_SOURCE \<in> feature_flags \<and> FILE_OFFSET_BITS \<in> feature_flags \<and>
   LFS64_LARGEFILE \<in> feature_flags \<and>
   macros (fresh_unix ()) LARGEFILE64_SOURCE = None \<and>
   macros (fresh_unix ()) FILE_OFFSET_BITS = None \<and>
   macros (fresh_unix ()) LFS64_LARGEFILE = None \<and>
   defined unix (fresh_unix ()) \<and> \<not> defined zlib_shim_h (fresh_unix ()) \<and>
   keeps (no_headers :: unit headers) LARGEFILE64_SOURCE \<and>
   keeps (no_headers :: unit headers) FILE_OFFSET_BITS \<and>
   keeps (no_headers :: unit headers) LFS64_LARGEFILE \<and>
   (\<exists>s'. shim no_headers (fresh_unix ()) = Inr s' \<and>
         macros s' LARGEFILE64_SOURCE = Some ''1'' \<and>
         macros s' FILE_OFFSET_BITS = Some ''64'' \<and>
         macros s' LFS64_LARGEFILE = Some ''1'')"
  using undefined_flag_defaulted_C3
      [where f = LARGEFILE64_SOURCE and s = "fresh_unix ()" and ext = "no_headers :: unit headers"]
    undefined_flag_defaulted_C3
      [where f = FILE_OFFSET_BITS and s = "fresh_unix ()" and ext = "no_headers :: unit headers"]
    undefined_flag_defaulted_C3
      [where f = LFS64_LARGEFILE and s = "fresh_unix ()" and ext = "no_headers :: unit headers"]
  by (auto simp add: feature_flags_def defined_def keeps_def no_headers_def fresh_unix_def)

text \<open>C4: on a platform that is not Unix-like, the platform-dependent part of the header
  (lines 4 to 22) returns the state exactly as it was. Processing the whole file then defines
  none of the three feature macros (each is as before, so an undefined one stays undefined),
  enters no header and changes no declaration; the only macro whose definition can differ
  afterwards is the include guard of lines 1 and 2.\<close>

theorem other_platform_inert_C4:
  "\<not> defined unix s \<longrightarrow>
     unix_section ext s = Inr s \<and>
     (\<exists>s'. shim ext s = Inr s' \<and>
           (\<forall>f \<in> feature_flags. macros s' f = macros s f) \<and>
           included s' = included s \<and>
           decls s' = decls s \<and>
           (\<forall>n. n \<noteq> zlib_shim_h \<longrightarrow> macros s' n = macros s n))"
  by (auto simp add: unix_section_eq shim_eq shim_result_def dest: flag_not_guard)

theorem other_platform_inert_C4_witness:
  "\<not> defined unix (fresh_other ()) \<and>
   unix_section no_headers (fresh_other ()) = Inr (fresh_other ()) \<and>
   (\<exists>s'. shim no_headers (fresh_other ()) = Inr s' \<and>
         macros s' LARGEFILE64_SOURCE = None \<and>
         macros s' FILE_OFFSET_BITS = None \<and>
         macros s' LFS64_LARGEFILE = None \<and>
         included s' = [] \<and> decls s' = ())"
  using other_platform_inert_C4 [where s = "fresh_other ()" and ext = "no_headers :: unit headers"]
  by (auto simp add: defined_def fresh_other_def feature_flags_def included_def)

text \<open>C5: processing the header twice gives the same three feature macros as processing it
  once, from every state, on every platform and whatever the imported headers do. When the
  headers leave the include guard alone, the second processing changes nothing at all. The
  three conditional definitions of lines 10 to 20, run a second time, change nothing
  either.\<close>

theorem twice_as_once_C5:
  "(\<exists>s1 s2. shim ext s = Inr s1 \<and> shim ext s1 = Inr s2 \<and>
            macros s2 LARGEFILE64_SOURCE = macros s1 LARGEFILE64_SOURCE \<and>
            macros s2 FILE_OFFSET_BITS = macros s1 FILE_OFFSET_BITS \<and>
            macros s2 LFS64_LARGEFILE = macros s1 LFS64_LARGEFILE \<and>
            (keeps ext zlib_shim_h \<longrightarrow> s2 = s1)) \<and>
   (\<exists>s1. large_file_defaults s = Inr s1 \<and> large_file_defaults s1 = Inr s1)"
  by (simp add: shim_eq large_file_defaults_eq defaults_idem shim_result_twice feature_flags_def
      shim_result_skipped guard_after_shim)

theorem twice_as_once_C5_witness:
  "keeps (no_headers :: unit headers) zlib_shim_h \<and>
   (\<exists>s1. shim no_headers (fresh_unix ()) = Inr s1 \<and> shim no_headers s1 = Inr s1 \<and>
         macros s1 LARGEFILE64_SOURCE = Some ''1'' \<and>
         macros s1 FILE_OFFSET_BITS = Some ''64'' \<and>
         macros s1 LFS64_LARGEFILE = Some ''1'')"
proof -
  have k: "keeps (no_headers :: unit headers) zlib_shim_h"
    by (simp add: keeps_def no_headers_def)
  have m: "macros (shim_result no_headers (fresh_unix ())) LARGEFILE64_SOURCE = Some ''1''"
    "macros (shim_result no_headers (fresh_unix ())) FILE_OFFSET_BITS = Some ''64''"
    "macros (shim_result no_headers (fresh_unix ())) LFS64_LARGEFILE = Some ''1''"
    by (simp_all add: shim_result_def fresh_unix_def defined_def macros_defaults once_def
        enter_def no_headers_def add_macro_def documented_default_def)
  from twice_as_once_C5 [where s = "fresh_unix ()" and ext = "no_headers :: unit headers"] k m
  show ?thesis by (auto simp add: shim_eq)
qed

text \<open>C6: processing the header cannot fail. On every platform and from every state of the
  macro table, whatever the imported headers do, the whole file, its Unix section and the
  three conditional definitions each end normally with a state, never with an error.\<close>

theorem shim_cannot_fail_C6:
  "(\<exists>s'. shim ext s = Inr s') \<and>
   (\<exists>s'. unix_section ext s = Inr s') \<and>
   (\<exists>s'. large_file_defaults s = Inr s')"
  by (simp add: shim_eq unix_section_eq large_file_defaults_eq)

text \<open>C7, as amended: the header passes on the declarations of the imported headers as
  those produce them and declares nothing itself; the macros it defines itself are the three
  feature macros, each with its documented default, and its include guard \<^verbatim>\<open>zlib_shim_h\<close>
  with an empty replacement text. Everything the processing appends to the trace is such a
  definition or the entering of \<^verbatim>\<open>stdio.h\<close> or \<^verbatim>\<open>zlib.h\<close>; when the file is skipped or
  the platform is not Unix-like the declarations are as before, and otherwise the
  declarations, and every macro other than the three feature macros, are what the two
  imports alone yield.\<close>

theorem shim_adds_four_macros_C7:
  "\<exists>s' new. shim ext s = Inr s' \<and> trace s' = trace s @ new \<and>
     (\<forall>n v. Defined n v \<in> set new \<longrightarrow>
        n \<in> feature_flags \<and> documented_default n = Some v \<or> n = zlib_shim_h \<and> v = []) \<and>
     (\<forall>h. Included h \<in> set new \<longrightarrow> h = ''stdio.h'' \<or> h = ''zlib.h'') \<and>
     (defined zlib_shim_h s \<or> \<not> defined unix s \<longrightarrow> decls s' = decls s) \<and>
     (\<not> defined zlib_shim_h s \<and> defined unix s \<longrightarrow>
        (\<exists>t. block [import_once ext ''stdio.h'', import_once ext ''zlib.h'']
                (add_macro zlib_shim_h [] s) = Inr t \<and>
             decls s' = decls t \<and>
             (\<forall>n. n \<notin> feature_flags \<longrightarrow> macros s' n = macros t n)))"
proof -
  let ?s' = "shim_result ext s"
  obtain new where new: "trace ?s' = trace s @ new"
    and new_def: "new =
       (if defined zlib_shim_h s then []
        else Defined zlib_shim_h [] #
          (if defined unix s
           then (let s1 = add_macro zlib_shim_h [] s;
                     s2 = once ext ''stdio.h'' s1;
                     s3 = once ext ''zlib.h'' s2
                 in (if Included ''stdio.h'' \<in> set (trace s1) then [] else [Included ''stdio.h'']) @
                    (if Included ''zlib.h'' \<in> set (trace s2) then [] else [Included ''zlib.h'']) @
                    [Defined f v. (f, v) \<leftarrow> [(LARGEFILE64_SOURCE, ''1''), (FILE_OFFSET_BITS, ''64''),
                                         (LFS64_LARGEFILE, ''1'')], \<not> defined f s3])
           else []))"
    using trace_shim_result [of ext s] by blast
  have d: "n \<in> feature_flags \<and> documented_default n = Some v \<or> n = zlib_shim_h \<and> v = []"
    if "Defined n v \<in> set new" for n v
    using that
    by (auto simp add: new_def Let_def feature_flags_def documented_default_def
        split: if_splits)
  have i: "h = ''stdio.h'' \<or> h = ''zlib.h''" if "Included h \<in> set new" for h
    using that by (auto simp add: new_def Let_def split: if_splits)
  have skip: "decls ?s' = decls s" if "defined zlib_shim_h s \<or> \<not> defined unix s"
    using that by (auto simp add: shim_result_def)
  have pass: "\<exists>t. block [import_once ext ''stdio.h'', import_once ext ''zlib.h'']
                (add_macro zlib_shim_h [] s) = Inr t \<and>
             decls ?s' = decls t \<and>
             (\<forall>n. n \<notin> feature_flags \<longrightarrow> macros ?s' n = macros t n)"
    if "\<not> defined zlib_shim_h s" and "defined unix s"
    using that unfolding imports_eq
    by (auto simp add: shim_result_def macros_defaults documented_default_def
        feature_flags_def split: option.split)
  show ?thesis
    using new d i skip pass by (auto simp add: shim_eq)
qed

theorem shim_adds_four_macros_C7_witness:
  "\<not> defined zlib_shim_h (fresh_unix []) \<and> defined unix (fresh_unix []) \<and>
   (\<exists>s' t. shim probe (fresh_unix []) = Inr s' \<and>
        block [import_once probe ''stdio.h'', import_once probe ''zlib.h'']
          (add_macro zlib_shim_h [] (fresh_unix [])) = Inr t \<and>
        decls s' = decls t \<and> macros s' unix = macros t unix \<and>
        macros s' zlib_shim_h = macros t zlib_shim_h)"
  using shim_adds_four_macros_C7 [where s = "fresh_unix []" and ext = probe]
  by (auto simp add: fresh_unix_def defined_def feature_flags_def)

text \<open>C7 as stated fails: with headers that define nothing, a translation unit on a
  Unix-like platform ends with a macro that was undefined before and is none of the three
  feature macros, the include guard.\<close>

theorem guard_is_a_fourth_macro_C7_counterexample:
  "shim no_headers (fresh_unix ()) =
     Inr \<lparr>macros = [unix \<mapsto> ''1'', zlib_shim_h \<mapsto> [], LARGEFILE64_SOURCE \<mapsto> ''1'',
                    FILE_OFFSET_BITS \<mapsto> ''64'', LFS64_LARGEFILE \<mapsto> ''1''],
          decls = (),
          trace = [Defined zlib_shim_h [], Included ''stdio.h'', Included ''zlib.h'',
                   Defined LARGEFILE64_SOURCE ''1'', Defined FILE_OFFSET_BITS ''64'',
                   Defined LFS64_LARGEFILE ''1'']\<rparr> \<and>
   macros (fresh_unix ()) zlib_shim_h = None \<and>
   zlib_shim_h \<notin> feature_flags"
  by (simp add: shim_eq shim_result_def fresh_unix_def defined_def defaults_def set_default_def
      once_def enter_def add_macro_def no_headers_def feature_flags_def)

text \<open>C8: on every platform, processing the header for the first time defines the include
  guard \<^verbatim>\<open>zlib_shim_h\<close> as its first effect. The guard is still defined afterwards on a
  platform that is not Unix-like, and on a Unix-like one when the imported headers leave it
  alone; processing the header again is then skipped, as it is whenever the guard is defined
  beforehand.\<close>

theorem guard_defined_C8:
  "(\<exists>s'. shim ext s = Inr s' \<and>
         (\<not> defined zlib_shim_h s \<longrightarrow>
            (\<exists>rest. trace s' = trace s @ Defined zlib_shim_h [] # rest)) \<and>
         (keeps ext zlib_shim_h \<or> \<not> defined unix s \<longrightarrow>
            defined zlib_shim_h s' \<and> shim ext s' = Inr s')) \<and>
   (defined zlib_shim_h s \<longrightarrow> shim ext s = Inr s)"
  by (auto simp add: shim_eq shim_result_skipped guard_after_shim)
    (simp add: shim_result_def trace_defaults trace_once)

theorem guard_defined_C8_witness:
  "\<not> defined zlib_shim_h (fresh_other ()) \<and> \<not> defined unix (fresh_other ()) \<and>
   (\<exists>s'. shim no_headers (fresh_other ()) = Inr s' \<and>
         trace s' = [Defined zlib_shim_h []] \<and>
         defined zlib_shim_h s' \<and> shim no_headers s' = Inr s')"
proof -
  have r: "shim_result no_headers (fresh_other ()) = add_macro zlib_shim_h [] (fresh_other ())"
    by (simp add: shim_result_def fresh_other_def defined_def)
  from guard_defined_C8 [where s = "fresh_other ()" and ext = "no_headers :: unit headers"]
  show ?thesis
    by (auto simp add: shim_eq r) (simp_all add: fresh_other_def defined_def)
qed

text \<open>C9: on a Unix-like platform, after the header was processed for the first time, the
  translation unit has entered \<^verbatim>\<open>stdio.h\<close> as well as \<^verbatim>\<open>zlib.h\<close>. When it had entered
  neither before, the header enters them in this order and the declarations afterwards are
  those of \<^verbatim>\<open>stdio.h\<close> followed by those of \<^verbatim>\<open>zlib.h\<close>.\<close>

theorem stdio_imported_C9:
  "defined unix s \<and> \<not> defined zlib_shim_h s \<longrightarrow>
     (\<exists>s'. shim ext s = Inr s' \<and>
           Included ''stdio.h'' \<in> set (trace s') \<and>
           Included ''zlib.h'' \<in> set (trace s') \<and>
           (Included ''stdio.h'' \<notin> set (trace s) \<and> Included ''zlib.h'' \<notin> set (trace s) \<longrightarrow>
              included s' = included s @ [''stdio.h'', ''zlib.h''] \<and>
              decls s' =
                snd (ext ''zlib.h'' (ext ''stdio.h'' ((macros s)(zlib_shim_h \<mapsto> []), decls s)))))"
  by (auto simp add: shim_eq shim_result_def Included_once_mono)
    (simp_all add: once_def enter_def included_def)

theorem stdio_imported_C9_witness:
  "defined unix (fresh_unix []) \<and> \<not> defined zlib_shim_h (fresh_unix []) \<and>
   Included ''stdio.h'' \<notin> set (trace (fresh_unix [])) \<and>
   Included ''zlib.h'' \<notin> set (trace (fresh_unix [])) \<and>
   (\<exists>s'. shim probe (fresh_unix []) = Inr s' \<and>
         included s' = [''stdio.h'', ''zlib.h''] \<and>
         decls s' = [(''stdio.h'', [None, None, None]), (''zlib.h'', [None, None, None])])"
  using stdio_imported_C9 [where s = "fresh_unix []" and ext = probe]
  by (auto simp add: fresh_unix_def defined_def included_def probe_def)

text \<open>C10: on a Unix-like platform each of the three feature macros is defined after the
  header was processed for the first time, whatever the macro table was before and whatever
  the imported headers do; a macro the headers leave alone has its earlier value, or its
  documented default when it had none. The same holds for the conditional definitions of lines
  10 to 20 taken alone.\<close>

theorem flags_defined_C10:
  "(\<exists>s'. large_file_defaults s = Inr s' \<and>
         defined LARGEFILE64_SOURCE s' \<and> defined FILE_OFFSET_BITS s' \<and>
         defined LFS64_LARGEFILE s' \<and>
         (\<forall>f \<in> feature_flags.
            macros s' f = (case macros s f of Some v \<Rightarrow> Some v | None \<Rightarrow> documented_default f))) \<and>
   (defined unix s \<and> \<not> defined zlib_shim_h s \<longrightarrow>
      (\<exists>s'. shim ext s = Inr s' \<and>
            defined LARGEFILE64_SOURCE s' \<and> defined FILE_OFFSET_BITS s' \<and>
            defined LFS64_LARGEFILE s' \<and>
            (\<forall>f \<in> feature_flags. keeps ext f \<longrightarrow>
               macros s' f =
                 (case macros s f of Some v \<Rightarrow> Some v | None \<Rightarrow> documented_default f))))"
proof -
  have a: "\<exists>s'. large_file_defaults s = Inr s' \<and>
         defined LARGEFILE64_SOURCE s' \<and> defined FILE_OFFSET_BITS s' \<and>
         defined LFS64_LARGEFILE s' \<and>
         (\<forall>f \<in> feature_flags.
            macros s' f = (case macros s f of Some v \<Rightarrow> Some v | None \<Rightarrow> documented_default f))"
    by (simp add: large_file_defaults_eq defined_defaults feature_flags_def macros_defaults)
  have b: "\<exists>s'. shim ext s = Inr s' \<and>
            defined LARGEFILE64_SOURCE s' \<and> defined FILE_OFFSET_BITS s' \<and>
            defined LFS64_LARGEFILE s' \<and>
            (\<forall>f \<in> feature_flags. keeps ext f \<longrightarrow>
               macros s' f =
                 (case macros s f of Some v \<Rightarrow> Some v | None \<Rightarrow> documented_default f))"
    if "defined unix s" and "\<not> defined zlib_shim_h s"
    using that
    by (auto simp add: shim_eq shim_result_def defined_defaults feature_flags_def
        macros_defaults macros_once_keeps)
  show ?thesis using a b by blast
qed

theorem flags_defined_C10_witness:
  "defined unix \<lparr>macros = [unix \<mapsto> ''1'', LFS64_LARGEFILE \<mapsto> ''0''], decls = (), trace = []\<rparr> \<and>
   \<not> defined zlib_shim_h
       \<lparr>macros = [unix \<mapsto> ''1'', LFS64_LARGEFILE \<mapsto> ''0''], decls = (), trace = []\<rparr> \<and>
   LFS64_LARGEFILE \<in> feature_flags \<and> FILE_OFFSET_BITS \<in> feature_flags \<and>
   keeps (no_headers :: unit headers) LFS64_LARGEFILE \<and>
   keeps (no_headers :: unit headers) FILE_OFFSET_BITS \<and>
   (\<exists>s'. shim no_headers
            \<lparr>macros = [unix \<mapsto> ''1'', LFS64_LARGEFILE \<mapsto> ''0''], decls = (), trace = []\<rparr> = Inr s' \<and>
         defined LARGEFILE64_SOURCE s' \<and> defined FILE_OFFSET_BITS s' \<and>
         defined LFS64_LARGEFILE s' \<and>
         macros s' LFS64_LARGEFILE = Some ''0'' \<and> macros s' FILE_OFFSET_BITS = Some ''64'')"
  using flags_defined_C10
    [where ext = "no_headers :: unit headers"
       and s = "\<lparr>macros = [unix \<mapsto> ''1'', LFS64_LARGEFILE \<mapsto> ''0''], decls = (), trace = []\<rparr>"]
  by (auto simp add: defined_def feature_flags_def keeps_def no_headers_def
      documented_default_def)

end
